theory Spec2Isabelle
  imports Main "HOL-Library.Word"
begin

section \<open>Data model\<close>

text \<open>
  The source file is \<^verbatim>\<open>src/lib.esm/crypto/signing-key.js\<close>: the class
  \<^verbatim>\<open>SigningKey\<close>, a thin layer over the curve library
  \<^verbatim>\<open>@noble/secp256k1\<close> and over the helpers of \<^verbatim>\<open>../utils/index.js\<close>
  and \<^verbatim>\<open>./signature.js\<close>.

  A \<^verbatim>\<open>Uint8Array\<close> is a list of bytes. A value the helpers call
  \<^verbatim>\<open>BytesLike\<close> is either such an array or a string holding its hexadecimal form.
\<close>

type_synonym byte = "8 word"
type_synonym bytes = "byte list"

datatype BytesLike = HexString string | ByteArray bytes

text \<open>
  The signature value of \<^verbatim>\<open>./signature.js\<close>: \<open>r\<close> and \<open>s\<close> as
  hexadecimal strings and the recovery indicator \<open>v\<close>. The same shape is what
  \<^verbatim>\<open>Signature.from\<close> accepts as its argument.
\<close>

record Signature =
  sig_r :: string
  sig_s :: string
  sig_v :: nat

text \<open>
  Every \<^verbatim>\<open>throw\<close> is a value. \<^verbatim>\<open>assertArgument(check, message, name, value)\<close>
  raises \<open>InvalidArgument message name value\<close>; an exception raised inside the curve
  library is an \<open>EngineError\<close>; \<^verbatim>\<open>Uint8Array.prototype.set\<close> raises
  \<open>RangeError\<close> when the source does not fit.
\<close>

datatype argval = ValStr string | ValData BytesLike | ValSig Signature

datatype error =
    InvalidArgument string string argval
  | EngineError string
  | RangeError

definition thenDo :: "error + 'a \<Rightarrow> ('a \<Rightarrow> error + 'b) \<Rightarrow> error + 'b" where
  "thenDo m f = (case m of Inl e \<Rightarrow> Inl e | Inr x \<Rightarrow> f x)"

definition assertArgument :: "bool \<Rightarrow> string \<Rightarrow> string \<Rightarrow> argval \<Rightarrow> error + unit" where
  "assertArgument check message name val =
     (if check then Inr () else Inl (InvalidArgument message name val))"

section \<open>Hexadecimal strings and big-endian numbers\<close>

text \<open>
  The hexadecimal digit of a value below 16, and the value of a digit, read off its
  character code: \<^verbatim>\<open>0\<close> is 48 and \<^verbatim>\<open>a\<close> is 97.
\<close>

definition hexchar :: "nat \<Rightarrow> char" where
  "hexchar d = ''0123456789abcdef'' ! d"

definition nibble :: "char \<Rightarrow> nat option" where
  "nibble c =
     (let k = (of_char c :: nat)
      in if 48 \<le> k \<and> k \<le> 57 then Some (k - 48)
         else if 97 \<le> k \<and> k \<le> 102 then Some (k - 87)
         else None)"

fun hex_of_bytes :: "bytes \<Rightarrow> string" where
  "hex_of_bytes [] = []"
| "hex_of_bytes (b # bs) =
     hexchar (unat b div 16) # hexchar (unat b mod 16) # hex_of_bytes bs"

fun bytes_of_hex :: "string \<Rightarrow> bytes option" where
  "bytes_of_hex [] = Some []"
| "bytes_of_hex [c] = None"
| "bytes_of_hex (h # l # cs) =
     (case nibble h of None \<Rightarrow> None
      | Some a \<Rightarrow>
        (case nibble l of None \<Rightarrow> None
         | Some b \<Rightarrow>
           (case bytes_of_hex cs of None \<Rightarrow> None
            | Some bs \<Rightarrow> Some (of_nat (16 * a + b) # bs))))"

text \<open>The value of a string of hexadecimal digits, most significant digit first.\<close>

fun hex_value :: "nat \<Rightarrow> string \<Rightarrow> nat option" where
  "hex_value acc [] = Some acc"
| "hex_value acc (c # cs) =
     (case nibble c of None \<Rightarrow> None | Some d \<Rightarrow> hex_value (16 * acc + d) cs)"

text \<open>Big-endian bytes of a number at a fixed width, and back.\<close>

fun nat_to_be :: "nat \<Rightarrow> nat \<Rightarrow> bytes" where
  "nat_to_be 0 n = []"
| "nat_to_be (Suc w) n = nat_to_be w (n div 256) @ [of_nat (n mod 256)]"

fun be_to_nat :: "bytes \<Rightarrow> nat" where
  "be_to_nat [] = 0"
| "be_to_nat (b # bs) = unat b * 256 ^ length bs + be_to_nat bs"

text \<open>
  JavaScript's \<^verbatim>\<open>BigInt.prototype.toString(16)\<close>: lowercase digits, no leading
  zero, a minus sign in front of a negative number.
\<close>

fun digits16 :: "nat \<Rightarrow> string" where
  "digits16 n = (if n < 16 then [hexchar n] else digits16 (n div 16) @ [hexchar (n mod 16)])"

declare digits16.simps [simp del]

definition toString16 :: "int \<Rightarrow> string" where
  "toString16 i = (if i < 0 then CHR ''-'' # digits16 (nat (- i)) else digits16 (nat i))"

section \<open>The helpers of utils\<close>

text \<open>
  Modelled from the spec: the helpers \<^verbatim>\<open>getBytes\<close>, \<^verbatim>\<open>getBytesCopy\<close>,
  \<^verbatim>\<open>hexlify\<close>, \<^verbatim>\<open>dataLength\<close>, \<^verbatim>\<open>concat\<close> (here \<open>concat_data\<close>) and \<^verbatim>\<open>toHex\<close> of
  \<^verbatim>\<open>../utils/index.js\<close>, which the source imports. The spec (section 6): every
  byte parameter is a raw byte sequence or its canonical lowercase hexadecimal string
  with a fixed two-character prefix, and byte-valued results are returned in that string
  form. The prefix is \<^verbatim>\<open>0x\<close>, as the source writes it. A malformed value is an
  argument-validation failure carrying the parameter name and the value (section 7).
\<close>

definition getBytes :: "BytesLike \<Rightarrow> string \<Rightarrow> error + bytes" where
  "getBytes val name =
     (case val of
        ByteArray bs \<Rightarrow> Inr bs
      | HexString str \<Rightarrow>
          (if take 2 str = ''0x'' then
             (case bytes_of_hex (drop 2 str) of
                Some bs \<Rightarrow> Inr bs
              | None \<Rightarrow> Inl (InvalidArgument ''invalid BytesLike value'' name (ValData val)))
           else Inl (InvalidArgument ''invalid BytesLike value'' name (ValData val))))"

definition getBytesCopy :: "BytesLike \<Rightarrow> error + bytes" where
  "getBytesCopy val = getBytes val ''value''"

definition hexlify :: "BytesLike \<Rightarrow> error + string" where
  "hexlify data = thenDo (getBytes data ''value'') (\<lambda>bs. Inr (''0x'' @ hex_of_bytes bs))"

definition dataLength :: "BytesLike \<Rightarrow> error + nat" where
  "dataLength data = thenDo (getBytes data ''value'') (\<lambda>bs. Inr (length bs))"

fun concat_hex :: "BytesLike list \<Rightarrow> error + string" where
  "concat_hex [] = Inr []"
| "concat_hex (d # ds) =
     thenDo (hexlify d) (\<lambda>h. thenDo (concat_hex ds) (\<lambda>rest. Inr (drop 2 h @ rest)))"

definition concat_data :: "BytesLike list \<Rightarrow> error + string" where
  "concat_data datas = thenDo (concat_hex datas) (\<lambda>body. Inr (''0x'' @ body))"

text \<open>
  Modelled from the spec: \<^verbatim>\<open>toHex(value, width)\<close> of the utils, for a value given as
  a prefixed hexadecimal string. The spec (section 4.3): \<open>r\<close> and \<open>s\<close> are each
  padded or truncated to exactly 32 bytes, big-endian. A string that is not a number is an
  argument-validation failure.
\<close>

definition toHex :: "string \<Rightarrow> nat \<Rightarrow> error + string" where
  "toHex str width =
     (if take 2 str = ''0x'' \<and> drop 2 str \<noteq> [] then
        (case hex_value 0 (drop 2 str) of
           Some n \<Rightarrow> Inr (''0x'' @ hex_of_bytes (nat_to_be width (n mod 256 ^ width)))
         | None \<Rightarrow> Inl (InvalidArgument ''invalid BigNumberish string'' ''value'' (ValStr str)))
      else Inl (InvalidArgument ''invalid BigNumberish string'' ''value'' (ValStr str)))"

section \<open>The signature value\<close>

text \<open>
  Modelled from the spec: \<^verbatim>\<open>Signature.from\<close> and the accessor \<^verbatim>\<open>yParity\<close> of
  \<^verbatim>\<open>./signature.js\<close>. The spec (sections 3 and 4.5): a signature holds a 32-byte
  \<open>r\<close>, a 32-byte \<open>s\<close> and a recovery indicator; both encodings of the indicator are
  supported, the parity value 0 or 1 and the legacy byte 27 or 28, which is the parity
  plus \<^verbatim>\<open>0x1b\<close>; a signature that does not decode into these is rejected. The value
  keeps the legacy byte, and \<open>yParity\<close> reads the parity back.
\<close>

definition is_data32 :: "string \<Rightarrow> bool" where
  "is_data32 str =
     (case getBytes (HexString str) ''value'' of Inl e \<Rightarrow> False | Inr bs \<Rightarrow> length bs = 32)"

definition Signature_from :: "Signature \<Rightarrow> error + Signature" where
  "Signature_from sg =
     (if \<not> is_data32 (sig_r sg) then Inl (InvalidArgument ''invalid r'' ''signature'' (ValSig sg))
      else if \<not> is_data32 (sig_s sg) then Inl (InvalidArgument ''invalid s'' ''signature'' (ValSig sg))
      else if sig_v sg = 0 \<or> sig_v sg = 27 then Inr (sg\<lparr>sig_v := 27\<rparr>)
      else if sig_v sg = 1 \<or> sig_v sg = 28 then Inr (sg\<lparr>sig_v := 28\<rparr>)
      else Inl (InvalidArgument ''invalid v'' ''signature'' (ValSig sg)))"

definition yParity :: "Signature \<Rightarrow> nat" where
  "yParity sg = (if sig_v sg = 27 then 0 else 1)"

section \<open>The curve library\<close>

text \<open>
  \<^verbatim>\<open>@noble/secp256k1\<close> is a package the source imports; it is a parameter of the
  model. Each function the source calls is a field of the record \<open>CurveEngine\<close>, and
  each may raise. \<open>'pt\<close> is the library's \<^verbatim>\<open>Point\<close> class, \<open>CurveSig\<close> its
  \<^verbatim>\<open>Signature\<close> class with the big integers \<open>r\<close> and \<open>s\<close>. The library takes
  a key or point as a \<^verbatim>\<open>Uint8Array\<close> or as a string (its type \<^verbatim>\<open>Hex\<close>).
  \<^verbatim>\<open>recoverPublicKey\<close> may return no key: the source tests its result against
  \<^verbatim>\<open>null\<close>.
\<close>

datatype Hex = HexBytes bytes | HexStr string

record CurveSig =
  cs_r :: int
  cs_s :: int

record SignOpts =
  recovered :: bool
  canonical :: bool

record 'pt CurveEngine =
  secp_getPublicKey :: "bytes \<Rightarrow> bool \<Rightarrow> error + bytes"
  secp_signSync :: "bytes \<Rightarrow> bytes \<Rightarrow> SignOpts \<Rightarrow> error + (bytes \<times> nat)"
  secp_Signature_fromHex :: "bytes \<Rightarrow> error + CurveSig"
  secp_Signature_fromCompact :: "bytes \<Rightarrow> error + CurveSig"
  secp_toDERRawBytes :: "CurveSig \<Rightarrow> error + bytes"
  secp_recoverPublicKey :: "bytes \<Rightarrow> bytes \<Rightarrow> nat \<Rightarrow> error + bytes option"
  secp_getSharedSecret :: "bytes \<Rightarrow> Hex \<Rightarrow> error + bytes"
  secp_Point_fromHex :: "Hex \<Rightarrow> error + 'pt"
  secp_toRawBytes :: "'pt \<Rightarrow> bool \<Rightarrow> error + bytes"
  secp_toHex :: "'pt \<Rightarrow> bool \<Rightarrow> error + string"
  secp_add :: "'pt \<Rightarrow> 'pt \<Rightarrow> error + 'pt"

text \<open>The order of the curve group, as the comment on line 5 of the source gives it.\<close>

definition N :: int where
  "N = 0xfffffffffffffffffffffffffffffffebaaedce6af48a03bbfd25e8cd0364141"

section \<open>SigningKey\<close>

text \<open>
  The optional argument \<^verbatim>\<open>compressed\<close> is \<open>None\<close> when the caller leaves it out.
  \<^verbatim>\<open>!!compressed\<close> is then false, and so is the library's default for the argument of
  \<^verbatim>\<open>toRawBytes\<close>.
\<close>

definition truthy :: "bool option \<Rightarrow> bool" where
  "truthy c = (case c of None \<Rightarrow> False | Some b \<Rightarrow> b)"

text \<open>\<^verbatim>\<open>target.set(source, offset)\<close> on a \<^verbatim>\<open>Uint8Array\<close>.\<close>

definition Uint8Array_set :: "bytes \<Rightarrow> bytes \<Rightarrow> nat \<Rightarrow> error + bytes" where
  "Uint8Array_set target source offset =
     (if offset + length source \<le> length target
      then Inr (take offset target @ source @ drop (offset + length source) target)
      else Inl RangeError)"

record SigningKey =
  privateKey :: string

text \<open>
  The constructor (lines 19 to 22): the length check, then the key stored in its
  hexadecimal form.
\<close>

definition new_SigningKey :: "BytesLike \<Rightarrow> error + SigningKey" where
  "new_SigningKey pk =
     thenDo (dataLength pk) (\<lambda>n.
     thenDo (assertArgument (n = 32) ''invalid private key'' ''privateKey'' (ValStr ''[REDACTED]'')) (\<lambda>_.
     thenDo (hexlify pk) (\<lambda>h.
     Inr \<lparr>privateKey = h\<rparr>)))"

text \<open>
  \<^verbatim>\<open>computePublicKey\<close> (lines 78 to 92). A 32-byte key is a private key and goes to
  \<^verbatim>\<open>getPublicKey\<close>. A 64-byte key is copied behind the byte \<^verbatim>\<open>0x04\<close> into a
  fresh array of 65 bytes. Everything but a private key is decoded by
  \<^verbatim>\<open>Point.fromHex\<close> and encoded again by \<^verbatim>\<open>toRawBytes\<close>.
\<close>

definition computePublicKey :: "'pt CurveEngine \<Rightarrow> BytesLike \<Rightarrow> bool option \<Rightarrow> error + string" where
  "computePublicKey E key compressed =
     thenDo (getBytes key ''key'') (\<lambda>bytes.
     if length bytes = 32 then
       thenDo (secp_getPublicKey E bytes (truthy compressed)) (\<lambda>pubKey.
       hexlify (ByteArray pubKey))
     else
       thenDo (if length bytes = 64
               then Uint8Array_set ((replicate 65 0)[0 := 0x04]) bytes 1
               else Inr bytes) (\<lambda>bytes.
       thenDo (secp_Point_fromHex E (HexBytes bytes)) (\<lambda>point.
       thenDo (secp_toRawBytes E point (truthy compressed)) (\<lambda>raw.
       hexlify (ByteArray raw)))))"

text \<open>The two accessors (lines 33 and 41).\<close>

definition publicKey :: "'pt CurveEngine \<Rightarrow> SigningKey \<Rightarrow> error + string" where
  "publicKey E sk = computePublicKey E (HexString (privateKey sk)) None"

definition compressedPublicKey :: "'pt CurveEngine \<Rightarrow> SigningKey \<Rightarrow> error + string" where
  "compressedPublicKey E sk = computePublicKey E (HexString (privateKey sk)) (Some True)"

text \<open>
  \<^verbatim>\<open>sign\<close> (lines 45 to 57). The engine is asked for a recoverable, canonical
  signature; \<open>r\<close> and \<open>s\<close> are printed in base 16 and padded to 32 bytes, and
  \<open>v\<close> is \<^verbatim>\<open>0x1c\<close> when the recovery id is truthy and \<^verbatim>\<open>0x1b\<close> otherwise.
\<close>

definition sign :: "'pt CurveEngine \<Rightarrow> SigningKey \<Rightarrow> BytesLike \<Rightarrow> error + Signature" where
  "sign E sk digest =
     thenDo (dataLength digest) (\<lambda>n.
     thenDo (assertArgument (n = 32) ''invalid digest length'' ''digest'' (ValData digest)) (\<lambda>_.
     thenDo (getBytesCopy digest) (\<lambda>dg.
     thenDo (getBytesCopy (HexString (privateKey sk))) (\<lambda>pk.
     thenDo (secp_signSync E dg pk \<lparr>recovered = True, canonical = True\<rparr>) (\<lambda>(sigDer, recid).
     thenDo (secp_Signature_fromHex E sigDer) (\<lambda>sg.
     thenDo (toHex (''0x'' @ toString16 (cs_r sg)) 32) (\<lambda>r.
     thenDo (toHex (''0x'' @ toString16 (cs_s sg)) 32) (\<lambda>s.
     Signature_from \<lparr>sig_r = r, sig_s = s, sig_v = (if recid \<noteq> 0 then 0x1c else 0x1b)\<rparr>))))))))"

text \<open>
  \<^verbatim>\<open>computeShardSecret\<close> (lines 68 to 71). The normalized key goes to the engine as
  the string \<^verbatim>\<open>computePublicKey\<close> returned.
\<close>

definition computeShardSecret :: "'pt CurveEngine \<Rightarrow> SigningKey \<Rightarrow> BytesLike \<Rightarrow> error + string" where
  "computeShardSecret E sk other =
     thenDo (computePublicKey E other None) (\<lambda>pubKey.
     thenDo (getBytesCopy (HexString (privateKey sk))) (\<lambda>pk.
     thenDo (secp_getSharedSecret E pk (HexStr pubKey)) (\<lambda>secret.
     hexlify (ByteArray secret))))"

text \<open>
  \<^verbatim>\<open>recoverPublicKey\<close> (lines 97 to 106). The last statement,
  \<^verbatim>\<open>assertArgument(false, ...)\<close>, always raises: it is the \<open>None\<close> branch.
\<close>

definition recoverPublicKey :: "'pt CurveEngine \<Rightarrow> BytesLike \<Rightarrow> Signature \<Rightarrow> error + string" where
  "recoverPublicKey E digest signature =
     thenDo (dataLength digest) (\<lambda>n.
     thenDo (assertArgument (n = 32) ''invalid digest length'' ''digest'' (ValData digest)) (\<lambda>_.
     thenDo (Signature_from signature) (\<lambda>sg.
     thenDo (concat_data [HexString (sig_r sg), HexString (sig_s sg)]) (\<lambda>rs.
     thenDo (getBytesCopy (HexString rs)) (\<lambda>compact.
     thenDo (secp_Signature_fromCompact E compact) (\<lambda>csig.
     thenDo (secp_toDERRawBytes E csig) (\<lambda>der.
     thenDo (getBytesCopy digest) (\<lambda>dg.
     thenDo (secp_recoverPublicKey E dg der (yParity sg)) (\<lambda>pubKey.
     case pubKey of
       Some pk \<Rightarrow> hexlify (ByteArray pk)
     | None \<Rightarrow> Inl (InvalidArgument ''invalid signautre for digest'' ''signature'' (ValSig signature)))))))))))"

text \<open>
  \<^verbatim>\<open>addPoints\<close> (lines 117 to 121). Each key is normalized, and
  \<^verbatim>\<open>substring(2)\<close> drops the prefix before the engine reads the string.
\<close>

definition addPoints :: "'pt CurveEngine \<Rightarrow> BytesLike \<Rightarrow> BytesLike \<Rightarrow> bool option \<Rightarrow> error + string" where
  "addPoints E p0 p1 compressed =
     thenDo (computePublicKey E p0 None) (\<lambda>h0.
     thenDo (secp_Point_fromHex E (HexStr (drop 2 h0))) (\<lambda>pub0.
     thenDo (computePublicKey E p1 None) (\<lambda>h1.
     thenDo (secp_Point_fromHex E (HexStr (drop 2 h1))) (\<lambda>pub1.
     thenDo (secp_add E pub0 pub1) (\<lambda>sum.
     thenDo (secp_toHex E sum (truthy compressed)) (\<lambda>h.
     Inr (''0x'' @ h)))))))"

section \<open>A finite excerpt of the curve library\<close>

text \<open>
  The theorems below hold for every engine. To instantiate them, \<open>fx_engine\<close> is an
  engine that answers at a handful of secp256k1 values and raises everywhere else: the
  private key and the digest of the example at the end of the source file, the points
  \<open>G\<close>, \<open>2G\<close> and \<open>3G\<close>, and one signature with no point behind it (no curve
  point has the x-coordinate 5). Strings are decoded as the library decodes its
  \<^verbatim>\<open>Hex\<close> arguments: hexadecimal digits with no prefix, which is why
  \<^verbatim>\<open>addPoints\<close> strips the first two characters before it calls
  \<^verbatim>\<open>Point.fromHex\<close>.
\<close>

definition unhex :: "string \<Rightarrow> bytes" where
  "unhex str = (case bytes_of_hex str of None \<Rightarrow> [] | Some bs \<Rightarrow> bs)"

datatype fx_point = PG1 | PG2 | PG3 | PK0

fun fx_x :: "fx_point \<Rightarrow> bytes" where
  "fx_x PG1 = unhex ''79be667ef9dcbbac55a06295ce870b07029bfcdb2dce28d959f2815b16f81798''"
| "fx_x PG2 = unhex ''c6047f9441ed7d6d3045406e95c07cd85c778e4b8cef3ca7abac09b95c709ee5''"
| "fx_x PG3 = unhex ''f9308a019258c31049344f85f89d5229b531c845836f99b08601f113bce036f9''"
| "fx_x PK0 = unhex ''eb31fbe78fc743f6f8ba04ce27791685c2152bdbacf020696c7086a95d353eb0''"

fun fx_y :: "fx_point \<Rightarrow> bytes" where
  "fx_y PG1 = unhex ''483ada7726a3c4655da4fbfc0e1108a8fd17b448a68554199c47d08ffb10d4b8''"
| "fx_y PG2 = unhex ''1ae168fea63dc339a3c58419466ceaeef7f632653266d0e1236431a950cfe52a''"
| "fx_y PG3 = unhex ''388f7b0f632de8140fe337e62a37f3566500a99934c2231b6cb9fd7584b8e672''"
| "fx_y PK0 = unhex ''d057c808f233f6f7ababe98e554fcb815dd39ee7043332a6733d63972145e955''"

definition fx_encode :: "fx_point \<Rightarrow> bool \<Rightarrow> bytes" where
  "fx_encode P compressed =
     (if compressed then (if even (unat (last (fx_y P))) then 0x02 else 0x03) # fx_x P
      else 0x04 # fx_x P @ fx_y P)"

definition fx_decode :: "bytes \<Rightarrow> error + fx_point" where
  "fx_decode bs =
     (case find (\<lambda>P. bs = fx_encode P False \<or> bs = fx_encode P True) [PG1, PG2, PG3, PK0] of
        Some P \<Rightarrow> Inr P
      | None \<Rightarrow> Inl (EngineError ''point outside the excerpt''))"

definition fx_ensureBytes :: "Hex \<Rightarrow> error + bytes" where
  "fx_ensureBytes h =
     (case h of
        HexBytes bs \<Rightarrow> Inr bs
      | HexStr str \<Rightarrow>
          (case bytes_of_hex str of
             Some bs \<Rightarrow> Inr bs
           | None \<Rightarrow> Inl (EngineError ''Invalid byte sequence'')))"

definition fx_key0 :: bytes where
  "fx_key0 = unhex ''1234567812345678123456781234567812345678123456781234567812345678''"

definition fx_key1 :: bytes where
  "fx_key1 = unhex ''0000000000000000000000000000000000000000000000000000000000000001''"

definition fx_digest0 :: bytes where
  "fx_digest0 = unhex ''1122334411223344112233441122334411223344112233441122334411223344''"

definition fx_sig0 :: CurveSig where
  "fx_sig0 = \<lparr>cs_r = 0x83d3fda484942b99ff9c78ac33b6ac4cb63e0a142fbec4ae58048359602d43b6,
              cs_s = 0x29647755d00201aaf4dac9ad990c9115f978477889c37455f1ebd5d98328ff89\<rparr>"

definition fx_der0 :: bytes where
  "fx_der0 = unhex (''304502210083d3fda484942b99ff9c78ac33b6ac4cb63e0a142fbec4ae58048359602d43b6''
                  @ ''022029647755d00201aaf4dac9ad990c9115f978477889c37455f1ebd5d98328ff89'')"

definition fx_sig_bad :: CurveSig where
  "fx_sig_bad = \<lparr>cs_r = 5, cs_s = 1\<rparr>"

definition fx_der_bad :: bytes where
  "fx_der_bad = unhex ''3006020105020101''"

definition fx_getPublicKey :: "bytes \<Rightarrow> bool \<Rightarrow> error + bytes" where
  "fx_getPublicKey key compressed =
     (if key = fx_key0 then Inr (fx_encode PK0 compressed)
      else if key = fx_key1 then Inr (fx_encode PG1 compressed)
      else Inl (EngineError ''key outside the excerpt''))"

definition fx_signSync :: "bytes \<Rightarrow> bytes \<Rightarrow> SignOpts \<Rightarrow> error + (bytes \<times> nat)" where
  "fx_signSync dg key opts =
     (if dg = fx_digest0 \<and> key = fx_key0 then Inr (fx_der0, 1)
      else Inl (EngineError ''digest or key outside the excerpt''))"

definition fx_Signature_fromHex :: "bytes \<Rightarrow> error + CurveSig" where
  "fx_Signature_fromHex der =
     (if der = fx_der0 then Inr fx_sig0
      else if der = fx_der_bad then Inr fx_sig_bad
      else Inl (EngineError ''signature outside the excerpt''))"

definition fx_Signature_fromCompact :: "bytes \<Rightarrow> error + CurveSig" where
  "fx_Signature_fromCompact bs =
     (if length bs = 64 then
        (let sg = \<lparr>cs_r = int (be_to_nat (take 32 bs)), cs_s = int (be_to_nat (drop 32 bs))\<rparr>
         in if 0 < cs_r sg \<and> cs_r sg < N \<and> 0 < cs_s sg \<and> cs_s sg < N then Inr sg
            else Inl (EngineError ''Invalid Signature''))
      else Inl (EngineError ''Invalid Signature''))"

definition fx_toDERRawBytes :: "CurveSig \<Rightarrow> error + bytes" where
  "fx_toDERRawBytes sg =
     (if sg = fx_sig0 then Inr fx_der0
      else if sg = fx_sig_bad then Inr fx_der_bad
      else Inl (EngineError ''signature outside the excerpt''))"

text \<open>
  Recovery at the signature with no point behind it answers \<open>nopoint\<close>: a library
  that returns \<^verbatim>\<open>null\<close> there is \<open>fx_engine (Inr None)\<close>, one that raises is
  \<open>fx_engine (Inl e)\<close>.
\<close>

definition fx_recoverPublicKey ::
  "error + bytes option \<Rightarrow> bytes \<Rightarrow> bytes \<Rightarrow> nat \<Rightarrow> error + bytes option" where
  "fx_recoverPublicKey nopoint dg der recid =
     (if dg = fx_digest0 \<and> der = fx_der0 \<and> recid = 1 then Inr (Some (fx_encode PK0 False))
      else if der = fx_der_bad \<and> recid < 2 then nopoint
      else Inl (EngineError ''signature outside the excerpt''))"

definition fx_getSharedSecret :: "bytes \<Rightarrow> Hex \<Rightarrow> error + bytes" where
  "fx_getSharedSecret key pub =
     thenDo (fx_ensureBytes pub) (\<lambda>bs.
     thenDo (fx_decode bs) (\<lambda>P.
     if key = fx_key0 \<and> P = PG2
     then Inr (unhex ''f5a830fba8a7764f1edcbb62ef25b1d992581ee2cab868f83e65649d52d54b62'')
     else Inl (EngineError ''key or point outside the excerpt'')))"

definition fx_add :: "fx_point \<Rightarrow> fx_point \<Rightarrow> error + fx_point" where
  "fx_add P Q =
     (if (P = PG1 \<and> Q = PG2) \<or> (P = PG2 \<and> Q = PG1) then Inr PG3
      else if P = PG1 \<and> Q = PG1 then Inr PG2
      else Inl (EngineError ''sum outside the excerpt''))"

definition fx_engine :: "error + bytes option \<Rightarrow> fx_point CurveEngine" where
  "fx_engine nopoint =
     \<lparr>secp_getPublicKey = fx_getPublicKey,
      secp_signSync = fx_signSync,
      secp_Signature_fromHex = fx_Signature_fromHex,
      secp_Signature_fromCompact = fx_Signature_fromCompact,
      secp_toDERRawBytes = fx_toDERRawBytes,
      secp_recoverPublicKey = fx_recoverPublicKey nopoint,
      secp_getSharedSecret = fx_getSharedSecret,
      secp_Point_fromHex = (\<lambda>h. thenDo (fx_ensureBytes h) fx_decode),
      secp_toRawBytes = (\<lambda>P c. Inr (fx_encode P c)),
      secp_toHex = (\<lambda>P c. Inr (hex_of_bytes (fx_encode P c))),
      secp_add = fx_add\<rparr>"

text \<open>
  The key and the digest of the example in the source, the signature secp256k1 gives
  for them, and the signature with no point behind it.
\<close>

definition fx_sk0 :: SigningKey where
  "fx_sk0 = \<lparr>privateKey = ''0x1234567812345678123456781234567812345678123456781234567812345678''\<rparr>"

definition fx_dig0 :: BytesLike where
  "fx_dig0 = HexString ''0x1122334411223344112233441122334411223344112233441122334411223344''"

definition fx_signature0 :: Signature where
  "fx_signature0 =
     \<lparr>sig_r = ''0x83d3fda484942b99ff9c78ac33b6ac4cb63e0a142fbec4ae58048359602d43b6'',
      sig_s = ''0x29647755d00201aaf4dac9ad990c9115f978477889c37455f1ebd5d98328ff89'',
      sig_v = 28\<rparr>"

definition fx_signature_bad :: Signature where
  "fx_signature_bad =
     \<lparr>sig_r = ''0x0000000000000000000000000000000000000000000000000000000000000005'',
      sig_s = ''0x0000000000000000000000000000000000000000000000000000000000000001'',
      sig_v = 27\<rparr>"

text \<open>
  The spec's \<open>decode\<close> of a public key in its string form: the bytes of the string,
  handed to the library's \<^verbatim>\<open>Point.fromHex\<close>.
\<close>

definition decodePoint :: "'pt CurveEngine \<Rightarrow> string \<Rightarrow> error + 'pt" where
  "decodePoint E h =
     thenDo (getBytes (HexString h) ''key'') (\<lambda>bs. secp_Point_fromHex E (HexBytes bs))"

section \<open>Hexadecimal strings: round trips\<close>

lemma thenDo_Inr [simp]: "thenDo (Inr x) f = f x"
  by (simp add: thenDo_def)

lemma thenDo_Inl [simp]: "thenDo (Inl e) f = Inl e"
  by (simp add: thenDo_def)

lemma thenDo_eq_Inr: "thenDo m f = Inr y \<longleftrightarrow> (\<exists>x. m = Inr x \<and> f x = Inr y)"
  by (cases m) simp_all

lemma nibble_hexchar: "d < 16 \<Longrightarrow> nibble (hexchar d) = Some d"
proof -
  assume "d < 16"
  then consider "d = 0" | "d = 1" | "d = 2" | "d = 3" | "d = 4" | "d = 5" | "d = 6" | "d = 7"
    | "d = 8" | "d = 9" | "d = 10" | "d = 11" | "d = 12" | "d = 13" | "d = 14" | "d = 15"
    by atomize_elim presburger
  then show ?thesis
    by cases (simp_all add: nibble_def hexchar_def)
qed

lemma byte_nibbles: "of_nat (16 * (unat b div 16) + unat b mod 16) = (b :: byte)"
  by simp

lemma byte_high_nibble: "unat (b :: byte) div 16 < 16"
proof -
  have "unat b < 256" using unsigned_less [of b, where ?'a = nat] by simp
  then show ?thesis by simp
qed

lemma bytes_of_hex_hex_of_bytes [simp]: "bytes_of_hex (hex_of_bytes bs) = Some bs"
  by (induction bs) (simp_all add: nibble_hexchar byte_high_nibble)

lemma length_hex_of_bytes [simp]: "length (hex_of_bytes bs) = 2 * length bs"
  by (induction bs) simp_all

lemma hex_value_append:
  "hex_value acc (xs @ ys) = (case hex_value acc xs of None \<Rightarrow> None | Some v \<Rightarrow> hex_value v ys)"
  by (induction xs arbitrary: acc) (simp_all split: option.splits)

lemma hex_value_digits16: "hex_value 0 (digits16 n) = Some n"
proof (induction n rule: digits16.induct)
  case (1 n)
  show ?case
  proof (cases "n < 16")
    case True
    then show ?thesis by (subst digits16.simps) (simp add: nibble_hexchar)
  next
    case False
    then have "hex_value 0 (digits16 (n div 16)) = Some (n div 16)" using 1 by simp
    with False show ?thesis
      by (subst digits16.simps) (simp add: hex_value_append nibble_hexchar)
  qed
qed

lemma digits16_not_Nil: "digits16 n \<noteq> []"
  by (subst digits16.simps) simp

lemma length_nat_to_be [simp]: "length (nat_to_be w n) = w"
  by (induction w arbitrary: n) simp_all

lemma be_to_nat_append: "be_to_nat (xs @ ys) = be_to_nat xs * 256 ^ length ys + be_to_nat ys"
  by (induction xs) (simp_all add: algebra_simps power_add)

lemma be_to_nat_nat_to_be: "be_to_nat (nat_to_be w n) = n mod 256 ^ w"
proof (induction w arbitrary: n)
  case 0
  show ?case by simp
next
  case (Suc w)
  have "unat (of_nat (n mod 256) :: byte) = n mod 256"
    by (simp add: unat_of_nat)
  then have "be_to_nat (nat_to_be (Suc w) n) = (n div 256 mod 256 ^ w) * 256 + n mod 256"
    by (simp add: be_to_nat_append Suc)
  also have "\<dots> = n mod 256 ^ Suc w"
    by (simp add: mod_mult2_eq)
  finally show ?case .
qed

lemma nat_to_be_numeral:
  "nat_to_be (numeral k) n = nat_to_be (pred_numeral k) (n div 256) @ [of_nat (n mod 256)]"
proof -
  have "numeral k = Suc (pred_numeral k)" by (rule numeral_eq_Suc)
  then show ?thesis by (metis nat_to_be.simps(2))
qed

section \<open>The helpers on well-formed values\<close>

lemma getBytes_ByteArray [simp]: "getBytes (ByteArray bs) name = Inr bs"
  by (simp add: getBytes_def)

lemma getBytes_name: "getBytes val name = Inr bs \<Longrightarrow> getBytes val name' = Inr bs"
  by (auto simp: getBytes_def split: BytesLike.splits option.splits if_splits)

lemma getBytes_hex_of_bytes [simp]:
  "getBytes (HexString (CHR ''0'' # CHR ''x'' # hex_of_bytes bs)) name = Inr bs"
  by (simp add: getBytes_def)

lemma getBytesCopy_ok: "getBytes val name = Inr bs \<Longrightarrow> getBytesCopy val = Inr bs"
  by (simp add: getBytesCopy_def getBytes_name [of val name bs "''value''"])

lemma hexlify_ok: "getBytes val name = Inr bs \<Longrightarrow> hexlify val = Inr (''0x'' @ hex_of_bytes bs)"
  by (simp add: hexlify_def getBytes_name [of val name bs "''value''"])

lemma hexlify_ByteArray [simp]: "hexlify (ByteArray bs) = Inr (''0x'' @ hex_of_bytes bs)"
  by (simp add: hexlify_def)

lemma dataLength_ok: "getBytes val name = Inr bs \<Longrightarrow> dataLength val = Inr (length bs)"
  by (simp add: dataLength_def getBytes_name [of val name bs "''value''"])

section \<open>Construction\<close>

text \<open>
  Claim C7. An input that decodes to \<open>bs\<close> with a length other than 32 makes the
  constructor raise \<open>InvalidArgument\<close> with the message \<^verbatim>\<open>invalid private key\<close>, the
  parameter name \<^verbatim>\<open>privateKey\<close> and the placeholder \<^verbatim>\<open>[REDACTED]\<close> as its value:
  nothing of the input is in the error. An input that decodes to 32 bytes gives a key
  whose stored string is the hexadecimal form of these bytes and decodes back to them.
\<close>

theorem constructor_length_check:
  assumes "getBytes pk ''value'' = Inr bs"
  shows "(length bs \<noteq> 32 \<longrightarrow>
           new_SigningKey pk =
             Inl (InvalidArgument ''invalid private key'' ''privateKey'' (ValStr ''[REDACTED]'')))
       \<and> (length bs = 32 \<longrightarrow>
           new_SigningKey pk = Inr \<lparr>privateKey = ''0x'' @ hex_of_bytes bs\<rparr>
           \<and> getBytes (HexString (''0x'' @ hex_of_bytes bs)) ''value'' = Inr bs)"
  using assms
  by (simp add: new_SigningKey_def dataLength_ok [OF assms] hexlify_ok [OF assms] assertArgument_def)

lemma fx_key0_decoded:
  "getBytes (HexString ''0x1234567812345678123456781234567812345678123456781234567812345678'') name
     = Inr fx_key0"
  by (simp add: getBytes_def fx_key0_def unhex_def nibble_def)

lemma fx_key0_length: "length fx_key0 = 32"
  by (simp add: fx_key0_def unhex_def nibble_def)

lemma fx_key0_hex:
  "hex_of_bytes fx_key0 = ''1234567812345678123456781234567812345678123456781234567812345678''"
  by (simp add: fx_key0_def unhex_def nibble_def hexchar_def)

theorem constructor_length_check_witness:
  "new_SigningKey (ByteArray (replicate 31 0)) =
     Inl (InvalidArgument ''invalid private key'' ''privateKey'' (ValStr ''[REDACTED]''))
   \<and> new_SigningKey (HexString ''0x1234567812345678123456781234567812345678123456781234567812345678'') =
       Inr \<lparr>privateKey = ''0x1234567812345678123456781234567812345678123456781234567812345678''\<rparr>"
proof -
  have a: "getBytes (ByteArray (replicate 31 0)) ''value'' = Inr (replicate 31 0)"
    by simp
  show ?thesis
    using constructor_length_check [OF a] constructor_length_check [OF fx_key0_decoded]
      fx_key0_length fx_key0_hex
    by simp
qed

section \<open>Signing\<close>

lemma nibble_minus: "nibble CHR ''-'' = None"
  by (simp add: nibble_def)

lemma toHex_toString16:
  assumes "0 \<le> i"
  shows "toHex (CHR ''0'' # CHR ''x'' # toString16 i) w
           = Inr (CHR ''0'' # CHR ''x'' # hex_of_bytes (nat_to_be w (nat i mod 256 ^ w)))"
  using assms by (simp add: toHex_def toString16_def digits16_not_Nil hex_value_digits16)

lemma toHex_toString16_negative:
  assumes "i < 0"
  shows "toHex (CHR ''0'' # CHR ''x'' # toString16 i) w
           = Inl (InvalidArgument ''invalid BigNumberish string'' ''value''
                   (ValStr (CHR ''0'' # CHR ''x'' # toString16 i)))"
  using assms by (simp add: toHex_def toString16_def nibble_minus)

lemma is_data32_be [simp]: "is_data32 (CHR ''0'' # CHR ''x'' # hex_of_bytes (nat_to_be 32 n))"
  by (simp add: is_data32_def)

lemma Signature_from_legacy:
  assumes "is_data32 r" and "is_data32 s" and "v = 27 \<or> v = 28"
  shows "Signature_from \<lparr>sig_r = r, sig_s = s, sig_v = v\<rparr> = Inr \<lparr>sig_r = r, sig_s = s, sig_v = v\<rparr>"
  using assms by (auto simp: Signature_from_def)

lemma sign_unfold:
  assumes "getBytes digest ''value'' = Inr dg" and "length dg = 32"
    and "getBytes (HexString (privateKey sk)) ''value'' = Inr pk"
    and "secp_signSync E dg pk \<lparr>recovered = True, canonical = True\<rparr> = Inr (der, recid)"
    and "secp_Signature_fromHex E der = Inr cs"
  shows "sign E sk digest =
           thenDo (toHex (''0x'' @ toString16 (cs_r cs)) 32) (\<lambda>r.
           thenDo (toHex (''0x'' @ toString16 (cs_s cs)) 32) (\<lambda>s.
           Signature_from \<lparr>sig_r = r, sig_s = s, sig_v = (if recid \<noteq> 0 then 0x1c else 0x1b)\<rparr>))"
  using assms
  by (simp add: sign_def dataLength_ok [OF assms(1)] assertArgument_def getBytesCopy_def)

lemma sign_value:
  assumes "getBytes digest ''value'' = Inr dg" and "length dg = 32"
    and "getBytes (HexString (privateKey sk)) ''value'' = Inr pk"
    and "secp_signSync E dg pk \<lparr>recovered = True, canonical = True\<rparr> = Inr (der, recid)"
    and "secp_Signature_fromHex E der = Inr cs"
    and "0 \<le> cs_r cs" and "0 \<le> cs_s cs"
  shows "sign E sk digest =
           Inr \<lparr>sig_r = ''0x'' @ hex_of_bytes (nat_to_be 32 (nat (cs_r cs) mod 256 ^ 32)),
                sig_s = ''0x'' @ hex_of_bytes (nat_to_be 32 (nat (cs_s cs) mod 256 ^ 32)),
                sig_v = (if recid \<noteq> 0 then 28 else 27)\<rparr>"
  by (simp add: sign_unfold [OF assms(1-5)] toHex_toString16 [OF assms(6)]
      toHex_toString16 [OF assms(7)] Signature_from_legacy)

lemma sign_success_nonneg:
  assumes "getBytes digest ''value'' = Inr dg" and "length dg = 32"
    and "getBytes (HexString (privateKey sk)) ''value'' = Inr pk"
    and "secp_signSync E dg pk \<lparr>recovered = True, canonical = True\<rparr> = Inr (der, recid)"
    and "secp_Signature_fromHex E der = Inr cs"
    and "sign E sk digest = Inr sg"
  shows "0 \<le> cs_r cs \<and> 0 \<le> cs_s cs"
proof (rule ccontr)
  assume "\<not> (0 \<le> cs_r cs \<and> 0 \<le> cs_s cs)"
  then consider "cs_r cs < 0" | "0 \<le> cs_r cs" "cs_s cs < 0" by linarith
  then have "\<exists>e. sign E sk digest = Inl e"
  proof cases
    case 1
    then show ?thesis
      by (simp add: sign_unfold [OF assms(1-5)] toHex_toString16_negative)
  next
    case 2
    then show ?thesis
      by (simp add: sign_unfold [OF assms(1-5)] toHex_toString16 toHex_toString16_negative)
  qed
  with assms(6) show False by simp
qed

lemma sign_digest_length:
  assumes "sign E sk digest = Inr sg" and "getBytes digest ''value'' = Inr dg"
  shows "length dg = 32"
  using assms
  by (simp add: sign_def dataLength_ok [OF assms(2)] assertArgument_def split: if_splits)

text \<open>
  Claim C8. A digest that decodes to a length other than 32 makes \<open>sign\<close> raise
  \<open>InvalidArgument\<close> with the message \<^verbatim>\<open>invalid digest length\<close> and the parameter name
  \<^verbatim>\<open>digest\<close>. The result is the same for every engine \<open>E\<close> and every key: no
  function of the curve library has a part in it, and no signature is returned.
\<close>

theorem sign_rejects_digest_length:
  assumes "getBytes digest ''value'' = Inr bs" and "length bs \<noteq> 32"
  shows "sign E sk digest = Inl (InvalidArgument ''invalid digest length'' ''digest'' (ValData digest))"
  using assms by (simp add: sign_def dataLength_ok [OF assms(1)] assertArgument_def)

theorem sign_rejects_digest_length_witness:
  "sign (fx_engine (Inr None))
     \<lparr>privateKey = ''0x1234567812345678123456781234567812345678123456781234567812345678''\<rparr>
     (ByteArray (replicate 31 0))
     = Inl (InvalidArgument ''invalid digest length'' ''digest'' (ValData (ByteArray (replicate 31 0))))
   \<and> sign (fx_engine (Inr None))
     \<lparr>privateKey = ''0x1234567812345678123456781234567812345678123456781234567812345678''\<rparr>
     (ByteArray (replicate 33 0))
     = Inl (InvalidArgument ''invalid digest length'' ''digest'' (ValData (ByteArray (replicate 33 0))))"
proof -
  have a: "getBytes (ByteArray (replicate 31 0)) ''value'' = Inr (replicate 31 0)"
    by simp
  have b: "getBytes (ByteArray (replicate 33 0)) ''value'' = Inr (replicate 33 0)"
    by simp
  show ?thesis
    using sign_rejects_digest_length [OF a, where E = "fx_engine (Inr None)"]
      sign_rejects_digest_length [OF b, where E = "fx_engine (Inr None)"]
    by simp
qed

text \<open>The excerpt at the example of the source.\<close>

lemma fx_sk0_decoded: "getBytes (HexString (privateKey fx_sk0)) name = Inr fx_key0"
  by (simp add: fx_sk0_def fx_key0_decoded)

lemma fx_dig0_decoded: "getBytes fx_dig0 name = Inr fx_digest0"
  by (simp add: fx_dig0_def getBytes_def fx_digest0_def unhex_def nibble_def)

lemma fx_digest0_length: "length fx_digest0 = 32"
  by (simp add: fx_digest0_def unhex_def nibble_def)

lemma fx_signSync0:
  "secp_signSync (fx_engine np) fx_digest0 fx_key0 \<lparr>recovered = True, canonical = True\<rparr>
     = Inr (fx_der0, 1)"
  by (simp add: fx_engine_def fx_signSync_def)

lemma fx_fromHex0: "secp_Signature_fromHex (fx_engine np) fx_der0 = Inr fx_sig0"
  by (simp add: fx_engine_def fx_Signature_fromHex_def)

lemma fx_sig0_r:
  "hex_of_bytes (nat_to_be 32 (nat (cs_r fx_sig0)))
     = ''83d3fda484942b99ff9c78ac33b6ac4cb63e0a142fbec4ae58048359602d43b6''"
  by (simp add: fx_sig0_def nat_to_be_numeral hexchar_def)

lemma fx_sig0_s:
  "hex_of_bytes (nat_to_be 32 (nat (cs_s fx_sig0)))
     = ''29647755d00201aaf4dac9ad990c9115f978477889c37455f1ebd5d98328ff89''"
  by (simp add: fx_sig0_def nat_to_be_numeral hexchar_def)

lemma fx_sig0_range: "0 \<le> cs_r fx_sig0 \<and> cs_r fx_sig0 < 2 ^ 256 \<and> 0 \<le> cs_s fx_sig0 \<and> cs_s fx_sig0 \<le> N div 2"
  by (simp add: fx_sig0_def N_def)

lemma fx_sign0: "sign (fx_engine np) fx_sk0 fx_dig0 = Inr fx_signature0"
proof -
  have r: "nat (cs_r fx_sig0) mod 256 ^ 32 = nat (cs_r fx_sig0)"
    by (simp add: fx_sig0_def)
  have s: "nat (cs_s fx_sig0) mod 256 ^ 32 = nat (cs_s fx_sig0)"
    by (simp add: fx_sig0_def)
  have "sign (fx_engine np) fx_sk0 fx_dig0 =
          Inr \<lparr>sig_r = ''0x'' @ hex_of_bytes (nat_to_be 32 (nat (cs_r fx_sig0) mod 256 ^ 32)),
               sig_s = ''0x'' @ hex_of_bytes (nat_to_be 32 (nat (cs_s fx_sig0) mod 256 ^ 32)),
               sig_v = (if (1::nat) \<noteq> 0 then 28 else 27)\<rparr>"
    using fx_sig0_range
    by (intro sign_value [OF fx_dig0_decoded fx_digest0_length fx_sk0_decoded fx_signSync0 fx_fromHex0])
      simp_all
  then show ?thesis
    unfolding r s fx_sig0_r fx_sig0_s by (simp add: fx_signature0_def)
qed

text \<open>
  Claim C2. When \<open>sign\<close> returns a signature, its recovery indicator is 27 if the
  recovery bit the engine returned is 0 and 28 if it is 1; it is one of 27 and 28 in every
  case, never the bare parity 0 or 1.
\<close>

theorem sign_recovery_byte:
  assumes "sign E sk digest = Inr sg"
    and "getBytes digest ''value'' = Inr dg"
    and "getBytes (HexString (privateKey sk)) ''value'' = Inr pk"
    and "secp_signSync E dg pk \<lparr>recovered = True, canonical = True\<rparr> = Inr (der, recid)"
  shows "(recid = 0 \<longrightarrow> sig_v sg = 27) \<and> (recid = 1 \<longrightarrow> sig_v sg = 28)
       \<and> (sig_v sg = 27 \<or> sig_v sg = 28) \<and> sig_v sg \<noteq> 0 \<and> sig_v sg \<noteq> 1"
proof -
  have len: "length dg = 32"
    by (rule sign_digest_length [OF assms(1,2)])
  obtain cs where cs: "secp_Signature_fromHex E der = Inr cs"
    using assms len
    by (cases "secp_Signature_fromHex E der")
      (simp_all add: sign_def dataLength_ok [OF assms(2)] assertArgument_def getBytesCopy_def)
  have "0 \<le> cs_r cs \<and> 0 \<le> cs_s cs"
    by (rule sign_success_nonneg [OF assms(2) len assms(3,4) cs assms(1)])
  then have "sig_v sg = (if recid \<noteq> 0 then 28 else 27)"
    using sign_value [OF assms(2) len assms(3,4) cs] assms(1) by auto
  then show ?thesis by simp
qed

theorem sign_recovery_byte_witness:
  "sign (fx_engine (Inr None)) fx_sk0 fx_dig0 = Inr fx_signature0
   \<and> secp_signSync (fx_engine (Inr None)) fx_digest0 fx_key0 \<lparr>recovered = True, canonical = True\<rparr>
       = Inr (fx_der0, 1)
   \<and> sig_v fx_signature0 = 28"
  using sign_recovery_byte [OF fx_sign0 fx_dig0_decoded fx_sk0_decoded fx_signSync0 [of "Inr None"]]
    fx_sign0 [of "Inr None"] fx_signSync0 [of "Inr None"]
  by simp

text \<open>
  Claim C3. The \<open>s\<close> of a signature \<open>sign\<close> returns decodes to 32 bytes whose
  big-endian value is the \<open>s\<close> of the engine's signature, unchanged: when the
  engine's \<open>s\<close> is at most half the curve order, as it is asked to be by
  \<^verbatim>\<open>canonical: true\<close>, so is the value in the signature.
\<close>

theorem sign_low_s:
  assumes "sign E sk digest = Inr sg"
    and "getBytes digest ''value'' = Inr dg"
    and "getBytes (HexString (privateKey sk)) ''value'' = Inr pk"
    and "secp_signSync E dg pk \<lparr>recovered = True, canonical = True\<rparr> = Inr (der, recid)"
    and "secp_Signature_fromHex E der = Inr cs"
    and "cs_s cs \<le> N div 2"
  shows "\<exists>bs. getBytes (HexString (sig_s sg)) ''value'' = Inr bs \<and> length bs = 32
            \<and> int (be_to_nat bs) = cs_s cs \<and> int (be_to_nat bs) \<le> N div 2"
proof -
  have len: "length dg = 32"
    by (rule sign_digest_length [OF assms(1,2)])
  have nonneg: "0 \<le> cs_r cs \<and> 0 \<le> cs_s cs"
    by (rule sign_success_nonneg [OF assms(2) len assms(3,4,5,1)])
  then have s: "sig_s sg = ''0x'' @ hex_of_bytes (nat_to_be 32 (nat (cs_s cs) mod 256 ^ 32))"
    using sign_value [OF assms(2) len assms(3,4,5)] assms(1) by auto
  have "cs_s cs < 2 ^ 256"
    using assms(6) by (simp add: N_def)
  then have small: "nat (cs_s cs) < 256 ^ 32"
    using nonneg by simp
  let ?bs = "nat_to_be 32 (nat (cs_s cs) mod 256 ^ 32)"
  have "getBytes (HexString (sig_s sg)) ''value'' = Inr ?bs"
    by (simp add: s)
  moreover have "length ?bs = 32"
    by simp
  moreover have "int (be_to_nat ?bs) = cs_s cs"
    using small nonneg by (simp only: be_to_nat_nat_to_be mod_mod_trivial mod_less) simp
  ultimately show ?thesis
    using assms(6) by auto
qed

theorem sign_low_s_witness:
  "\<exists>bs. getBytes (HexString (sig_s fx_signature0)) ''value'' = Inr bs \<and> length bs = 32
        \<and> int (be_to_nat bs) = cs_s fx_sig0 \<and> int (be_to_nat bs) \<le> N div 2"
proof -
  have "cs_s fx_sig0 \<le> N div 2"
    using fx_sig0_range by simp
  then show ?thesis
    by (rule sign_low_s [OF fx_sign0 [of "Inr None"] fx_dig0_decoded fx_sk0_decoded
          fx_signSync0 fx_fromHex0])
qed

section \<open>Recovery\<close>

lemma hex_of_bytes_append: "hex_of_bytes (xs @ ys) = hex_of_bytes xs @ hex_of_bytes ys"
  by (induction xs) simp_all

lemma is_data32_decoded:
  assumes "is_data32 str"
  obtains bs where "getBytes (HexString str) ''value'' = Inr bs" and "length bs = 32"
  using assms by (auto simp: is_data32_def split: sum.splits)

lemma Signature_from_ok:
  assumes "Signature_from sgl = Inr sg"
  shows "is_data32 (sig_r sg) \<and> is_data32 (sig_s sg) \<and> (sig_v sg = 27 \<or> sig_v sg = 28)"
  using assms by (auto simp: Signature_from_def split: if_splits)

lemma concat_data_two:
  assumes "getBytes (HexString r) ''value'' = Inr R" and "getBytes (HexString s) ''value'' = Inr S"
  shows "concat_data [HexString r, HexString s] = Inr (''0x'' @ hex_of_bytes (R @ S))"
  by (simp add: concat_data_def hexlify_ok [OF assms(1)] hexlify_ok [OF assms(2)] hex_of_bytes_append)

lemma recoverPublicKey_unfold:
  assumes "getBytes digest ''value'' = Inr dg" and "length dg = 32"
    and "Signature_from signature = Inr sg"
    and "getBytes (HexString (sig_r sg)) ''value'' = Inr R"
    and "getBytes (HexString (sig_s sg)) ''value'' = Inr S"
  shows "recoverPublicKey E digest signature =
           thenDo (secp_Signature_fromCompact E (R @ S)) (\<lambda>csig.
           thenDo (secp_toDERRawBytes E csig) (\<lambda>der.
           thenDo (secp_recoverPublicKey E dg der (yParity sg)) (\<lambda>pubKey.
           case pubKey of
             Some pk \<Rightarrow> Inr (''0x'' @ hex_of_bytes pk)
           | None \<Rightarrow> Inl (InvalidArgument ''invalid signautre for digest'' ''signature''
                           (ValSig signature)))))"
proof -
  have c: "concat_data [HexString (sig_r sg), HexString (sig_s sg)] = Inr (''0x'' @ hex_of_bytes (R @ S))"
    by (rule concat_data_two [OF assms(4,5)])
  show ?thesis
    using assms(2)
    by (simp add: recoverPublicKey_def dataLength_ok [OF assms(1)] assertArgument_def assms(3) c
        getBytesCopy_def assms(1) cong: option.case_cong)
qed

text \<open>
  The three ways \<open>recoverPublicKey\<close> ends once the digest has 32 bytes, the
  signature is accepted and the engine has turned it into its DER form: the engine's
  recovery returns a key, it returns none, or it raises.
\<close>

lemma recoverPublicKey_outcomes:
  assumes "getBytes digest ''value'' = Inr dg" and "length dg = 32"
    and "Signature_from signature = Inr sg"
    and "getBytes (HexString (sig_r sg)) ''value'' = Inr R"
    and "getBytes (HexString (sig_s sg)) ''value'' = Inr S"
    and "secp_Signature_fromCompact E (R @ S) = Inr csig"
    and "secp_toDERRawBytes E csig = Inr der"
  shows "(secp_recoverPublicKey E dg der (yParity sg) = Inr None \<longrightarrow>
            recoverPublicKey E digest signature =
              Inl (InvalidArgument ''invalid signautre for digest'' ''signature'' (ValSig signature)))
       \<and> (\<forall>pk. secp_recoverPublicKey E dg der (yParity sg) = Inr (Some pk) \<longrightarrow>
            recoverPublicKey E digest signature = Inr (''0x'' @ hex_of_bytes pk))
       \<and> (\<forall>e. secp_recoverPublicKey E dg der (yParity sg) = Inl e \<longrightarrow>
            recoverPublicKey E digest signature = Inl e)"
  by (simp add: recoverPublicKey_unfold [OF assms(1-5)] assms(6,7))

lemma fx_bad_from: "Signature_from fx_signature_bad = Inr fx_signature_bad"
  by (simp add: Signature_from_def fx_signature_bad_def is_data32_def getBytes_def nibble_def)

lemma fx_bad_r:
  "getBytes (HexString (sig_r fx_signature_bad)) ''value''
     = Inr (unhex ''0000000000000000000000000000000000000000000000000000000000000005'')"
  by (simp add: fx_signature_bad_def getBytes_def unhex_def nibble_def)

lemma fx_bad_s:
  "getBytes (HexString (sig_s fx_signature_bad)) ''value''
     = Inr (unhex ''0000000000000000000000000000000000000000000000000000000000000001'')"
  by (simp add: fx_signature_bad_def getBytes_def unhex_def nibble_def)

lemma fx_bad_compact:
  "secp_Signature_fromCompact (fx_engine np)
     (unhex ''0000000000000000000000000000000000000000000000000000000000000005''
      @ unhex ''0000000000000000000000000000000000000000000000000000000000000001'') = Inr fx_sig_bad"
  by (simp add: fx_engine_def fx_Signature_fromCompact_def unhex_def nibble_def fx_sig_bad_def N_def)

lemma fx_bad_der: "secp_toDERRawBytes (fx_engine np) fx_sig_bad = Inr fx_der_bad"
  by (simp add: fx_engine_def fx_toDERRawBytes_def fx_sig_bad_def fx_sig0_def)

lemma fx_bad_recover:
  "secp_recoverPublicKey (fx_engine np) fx_digest0 fx_der_bad (yParity fx_signature_bad) = np"
  by (simp add: fx_engine_def fx_recoverPublicKey_def yParity_def fx_signature_bad_def
      fx_der_bad_def fx_der0_def unhex_def nibble_def)

text \<open>
  Claim C6 at the digest of the example and the signature \<open>r = 5\<close>, \<open>s = 1\<close>,
  \<open>v = 27\<close>, which has no point behind it: no curve point has the x-coordinate 5.
  Lines 102 to 105 raise \<open>InvalidArgument\<close> naming \<^verbatim>\<open>signature\<close> when the
  engine's recovery returns \<^verbatim>\<open>null\<close>, and there is no handler around the call. With
  an engine that raises where recovery fails, the caller gets the engine's own exception
  and not the \<open>InvalidArgument\<close> the claim asks for.
\<close>

theorem recoverPublicKey_raw_engine_error:
  "secp_recoverPublicKey (fx_engine (Inl (EngineError ''Cannot recover public key'')))
     fx_digest0 fx_der_bad (yParity fx_signature_bad) = Inl (EngineError ''Cannot recover public key'')
   \<and> recoverPublicKey (fx_engine (Inl (EngineError ''Cannot recover public key''))) fx_dig0
       fx_signature_bad = Inl (EngineError ''Cannot recover public key'')
   \<and> recoverPublicKey (fx_engine (Inl (EngineError ''Cannot recover public key''))) fx_dig0
       fx_signature_bad
       \<noteq> Inl (InvalidArgument ''invalid signautre for digest'' ''signature'' (ValSig fx_signature_bad))"
  by (simp add: recoverPublicKey_unfold [OF fx_dig0_decoded fx_digest0_length fx_bad_from fx_bad_r
        fx_bad_s] fx_bad_compact fx_bad_der fx_bad_recover)

lemma new_SigningKey_ok:
  assumes "getBytes k ''value'' = Inr pk" and "length pk = 32"
  shows "new_SigningKey k = Inr \<lparr>privateKey = ''0x'' @ hex_of_bytes pk\<rparr>"
  using assms(2)
  by (simp add: new_SigningKey_def dataLength_ok [OF assms(1)] hexlify_ok [OF assms(1)]
      assertArgument_def)

lemma computePublicKey_private:
  assumes "getBytes key ''key'' = Inr pk" and "length pk = 32"
  shows "computePublicKey E key c =
           thenDo (secp_getPublicKey E pk (truthy c)) (\<lambda>pub. Inr (''0x'' @ hex_of_bytes pub))"
  by (simp add: computePublicKey_def assms)

lemma yParity_legacy:
  "recid < 2 \<Longrightarrow> yParity \<lparr>sig_r = r, sig_s = s, sig_v = (if recid \<noteq> 0 then 28 else 27)\<rparr> = recid"
  by (auto simp: yParity_def)

text \<open>
  Claim C1. Take a key \<open>k\<close> that decodes to 32 bytes and a digest that decodes to 32
  bytes, and an engine that keeps its contract at them: its signature has a recovery bit 0
  or 1 and \<open>r\<close>, \<open>s\<close> below \<open>2 ^ 256\<close>, and its recovery from the compact form
  \<open>r \<parallel> s\<close>, re-encoded as DER, with that bit returns the 65-byte public key \<open>pub\<close>
  of \<open>k\<close>. Then the key is constructed, \<open>sign\<close> returns a signature, and
  \<open>recoverPublicKey\<close> of the digest and that signature returns what
  \<open>computePublicKey\<close> returns for \<open>k\<close> uncompressed: the hexadecimal form of
  \<open>pub\<close>.
\<close>

theorem recover_after_sign:
  assumes key: "getBytes k ''value'' = Inr pk" "length pk = 32"
    and dig: "getBytes digest ''value'' = Inr dg" "length dg = 32"
    and sgn: "secp_signSync E dg pk \<lparr>recovered = True, canonical = True\<rparr> = Inr (der, recid)"
      "recid < 2"
    and parsed: "secp_Signature_fromHex E der = Inr cs"
      "0 \<le> cs_r cs" "cs_r cs < 2 ^ 256" "0 \<le> cs_s cs" "cs_s cs < 2 ^ 256"
    and compact: "secp_Signature_fromCompact E
        (nat_to_be 32 (nat (cs_r cs)) @ nat_to_be 32 (nat (cs_s cs))) = Inr cs'"
    and der': "secp_toDERRawBytes E cs' = Inr der'"
    and recovered: "secp_recoverPublicKey E dg der' recid = Inr (Some pub)"
    and pub: "secp_getPublicKey E pk False = Inr pub" "length pub = 65"
  shows "\<exists>sk sg. new_SigningKey k = Inr sk \<and> sign E sk digest = Inr sg
           \<and> recoverPublicKey E digest sg = computePublicKey E k (Some False)
           \<and> recoverPublicKey E digest sg = Inr (''0x'' @ hex_of_bytes pub)
           \<and> publicKey E sk = Inr (''0x'' @ hex_of_bytes pub)
           \<and> length pub = 65"
proof -
  define sk where "sk = \<lparr>privateKey = ''0x'' @ hex_of_bytes pk\<rparr>"
  define R where "R = nat_to_be 32 (nat (cs_r cs))"
  define S where "S = nat_to_be 32 (nat (cs_s cs))"
  define sg where "sg = \<lparr>sig_r = ''0x'' @ hex_of_bytes R, sig_s = ''0x'' @ hex_of_bytes S,
                          sig_v = (if recid \<noteq> 0 then 28 else 27)\<rparr>"
  have new: "new_SigningKey k = Inr sk"
    unfolding sk_def by (rule new_SigningKey_ok [OF key])
  have skd: "getBytes (HexString (privateKey sk)) name = Inr pk" for name
    by (simp add: sk_def)
  have r: "nat (cs_r cs) mod 256 ^ 32 = nat (cs_r cs)"
    using parsed(2,3) by simp
  have s: "nat (cs_s cs) mod 256 ^ 32 = nat (cs_s cs)"
    using parsed(4,5) by simp
  have signed: "sign E sk digest = Inr sg"
    using sign_value [OF dig skd sgn(1) parsed(1,2,4)]
    by (simp only: r s sg_def R_def S_def)
  have v: "sig_v sg = 27 \<or> sig_v sg = 28"
    by (simp add: sg_def)
  have "from": "Signature_from sg = Inr sg"
    using Signature_from_legacy [of "sig_r sg" "sig_s sg" "sig_v sg"] v
    by (simp add: sg_def R_def S_def)
  have Rd: "getBytes (HexString (sig_r sg)) ''value'' = Inr R"
    by (simp add: sg_def)
  have Sd: "getBytes (HexString (sig_s sg)) ''value'' = Inr S"
    by (simp add: sg_def)
  have par: "yParity sg = recid"
    unfolding sg_def by (rule yParity_legacy [OF sgn(2)])
  have rec: "recoverPublicKey E digest sg = Inr (''0x'' @ hex_of_bytes pub)"
    using compact der' recovered
    by (simp add: recoverPublicKey_unfold [OF dig "from" Rd Sd] par R_def S_def)
  have kk: "getBytes k ''key'' = Inr pk"
    by (rule getBytes_name [OF key(1)])
  have cpk: "computePublicKey E k (Some False) = Inr (''0x'' @ hex_of_bytes pub)"
    by (simp add: computePublicKey_private [OF kk key(2)] truthy_def pub(1))
  have pk: "publicKey E sk = Inr (''0x'' @ hex_of_bytes pub)"
    by (simp add: publicKey_def computePublicKey_private [OF skd key(2)] truthy_def pub(1))
  show ?thesis
    using new signed rec cpk pk pub(2) by simp
qed

lemma fx_compact0:
  "secp_Signature_fromCompact (fx_engine np)
     (nat_to_be 32 (nat (cs_r fx_sig0)) @ nat_to_be 32 (nat (cs_s fx_sig0))) = Inr fx_sig0"
proof -
  have "int (be_to_nat (nat_to_be 32 (nat (cs_r fx_sig0)))) = cs_r fx_sig0"
    by (simp only: be_to_nat_nat_to_be) (simp add: fx_sig0_def)
  moreover have "int (be_to_nat (nat_to_be 32 (nat (cs_s fx_sig0)))) = cs_s fx_sig0"
    by (simp only: be_to_nat_nat_to_be) (simp add: fx_sig0_def)
  moreover have "0 < cs_r fx_sig0 \<and> cs_r fx_sig0 < N \<and> 0 < cs_s fx_sig0 \<and> cs_s fx_sig0 < N"
    by (simp add: fx_sig0_def N_def)
  ultimately show ?thesis
    by (simp add: fx_engine_def fx_Signature_fromCompact_def Let_def)
qed

lemma fx_toDER0: "secp_toDERRawBytes (fx_engine np) fx_sig0 = Inr fx_der0"
  by (simp add: fx_engine_def fx_toDERRawBytes_def)

lemma fx_recover0:
  "secp_recoverPublicKey (fx_engine np) fx_digest0 fx_der0 1 = Inr (Some (fx_encode PK0 False))"
  by (simp add: fx_engine_def fx_recoverPublicKey_def)

lemma fx_getPublicKey0: "secp_getPublicKey (fx_engine np) fx_key0 c = Inr (fx_encode PK0 c)"
  by (simp add: fx_engine_def fx_getPublicKey_def)

lemma fx_x_length: "length (fx_x P) = 32"
  by (cases P) (simp_all add: unhex_def nibble_def)

lemma fx_y_length: "length (fx_y P) = 32"
  by (cases P) (simp_all add: unhex_def nibble_def)

lemma fx_encode_length: "length (fx_encode P c) = (if c then 33 else 65)"
  by (simp add: fx_encode_def fx_x_length fx_y_length)

theorem recover_after_sign_witness:
  "\<exists>sk sg. new_SigningKey
       (HexString ''0x1234567812345678123456781234567812345678123456781234567812345678'') = Inr sk
     \<and> sign (fx_engine (Inr None)) sk fx_dig0 = Inr sg
     \<and> recoverPublicKey (fx_engine (Inr None)) fx_dig0 sg
         = computePublicKey (fx_engine (Inr None))
             (HexString ''0x1234567812345678123456781234567812345678123456781234567812345678'')
             (Some False)
     \<and> recoverPublicKey (fx_engine (Inr None)) fx_dig0 sg
         = Inr (''0x'' @ hex_of_bytes (fx_encode PK0 False))
     \<and> publicKey (fx_engine (Inr None)) sk = Inr (''0x'' @ hex_of_bytes (fx_encode PK0 False))
     \<and> length (fx_encode PK0 False) = 65"
proof -
  have range: "0 \<le> cs_r fx_sig0" "cs_r fx_sig0 < 2 ^ 256" "0 \<le> cs_s fx_sig0" "cs_s fx_sig0 < 2 ^ 256"
    by (simp_all add: fx_sig0_def)
  have len: "length (fx_encode PK0 False) = 65"
    by (simp add: fx_encode_length)
  have one: "(1::nat) < 2"
    by simp
  show ?thesis
    by (rule recover_after_sign [OF fx_key0_decoded fx_key0_length fx_dig0_decoded fx_digest0_length
          fx_signSync0 one fx_fromHex0 range fx_compact0 fx_toDER0 fx_recover0 fx_getPublicKey0 len])
qed

section \<open>Public keys\<close>

lemma Uint8Array_raw:
  assumes "length bs = 64"
  shows "Uint8Array_set ((replicate 65 0)[0 := 0x04]) bs (Suc 0) = Inr (0x04 # bs)"
proof -
  have "replicate 65 (0::byte) = 0 # replicate 64 0"
    by (simp add: replicate_Suc [symmetric] del: replicate_Suc)
  then have "(replicate 65 (0::byte))[0 := 0x04] = 0x04 # replicate 64 0"
    by simp
  then show ?thesis
    using assms by (simp add: Uint8Array_set_def)
qed

lemma computePublicKey_point:
  assumes "getBytes key ''key'' = Inr bs" and "length bs \<noteq> 32" and "length bs \<noteq> 64"
  shows "computePublicKey E key c =
           thenDo (secp_Point_fromHex E (HexBytes bs)) (\<lambda>point.
           thenDo (secp_toRawBytes E point (truthy c)) (\<lambda>raw.
           Inr (''0x'' @ hex_of_bytes raw)))"
  using assms by (simp add: computePublicKey_def)

text \<open>
  Claim C9. A key that decodes to exactly 64 bytes \<open>bs\<close> is taken as the raw point
  \<open>x \<parallel> y\<close>: \<open>computePublicKey\<close> hands the engine the 65 bytes \<open>0x04 # bs\<close>
  to decode, and returns the hexadecimal form of the decoded point re-encoded as the
  flag \<open>compressed\<close> says.
\<close>

theorem computePublicKey_raw:
  assumes "getBytes key ''key'' = Inr bs" and "length bs = 64"
  shows "computePublicKey E key compressed =
           thenDo (secp_Point_fromHex E (HexBytes (0x04 # bs))) (\<lambda>point.
           thenDo (secp_toRawBytes E point (truthy compressed)) (\<lambda>raw.
           Inr (''0x'' @ hex_of_bytes raw)))
         \<and> length (0x04 # bs) = 65"
  using assms by (simp add: computePublicKey_def Uint8Array_raw)

lemma decodePoint_hex [simp]:
  "decodePoint E (CHR ''0'' # CHR ''x'' # hex_of_bytes bs) = secp_Point_fromHex E (HexBytes bs)"
  by (simp add: decodePoint_def)

lemma decode_after_private:
  assumes "getBytes key ''key'' = Inr pk" and "length pk = 32"
    and "secp_getPublicKey E pk (truthy c) = Inr raw"
    and "secp_Point_fromHex E (HexBytes raw) = Inr P"
  shows "thenDo (computePublicKey E key c) (decodePoint E) = Inr P"
  by (simp add: computePublicKey_private [OF assms(1,2)] assms(3,4))

lemma decode_after_point:
  assumes "getBytes key ''key'' = Inr u" and "length u \<noteq> 32" and "length u \<noteq> 64"
    and "secp_Point_fromHex E (HexBytes u) = Inr P"
    and "secp_toRawBytes E P (truthy c) = Inr raw"
    and "secp_Point_fromHex E (HexBytes raw) = Inr P"
  shows "thenDo (computePublicKey E key c) (decodePoint E) = Inr P"
  by (simp add: computePublicKey_point [OF assms(1-3)] assms(4-6))

lemma decode_after_raw:
  assumes "getBytes key ''key'' = Inr xy" and "length xy = 64"
    and "secp_Point_fromHex E (HexBytes (0x04 # xy)) = Inr P"
    and "secp_toRawBytes E P (truthy c) = Inr raw"
    and "secp_Point_fromHex E (HexBytes raw) = Inr P"
  shows "thenDo (computePublicKey E key c) (decodePoint E) = Inr P"
  using assms(2-5) by (simp add: computePublicKey_def assms(1) Uint8Array_raw)

text \<open>
  Claim C5. Take a key that decodes to 32 bytes and an engine that keeps its contract at
  it: the public key it derives is the encoding of a point \<open>P\<close>, 65 bytes
  \<open>0x04 # xy\<close> uncompressed and 33 bytes compressed, and it decodes both back to
  \<open>P\<close>. Then \<open>computePublicKey\<close> of the private key decodes to \<open>P\<close>, and so
  does \<open>computePublicKey\<close> of each of the three encodings of the public key
  (uncompressed, raw \<open>xy\<close> and compressed), whatever the two flags are.
\<close>

theorem computePublicKey_normalizes:
  assumes key: "getBytes k ''key'' = Inr pk" "length pk = 32"
    and unc: "secp_toRawBytes E P False = Inr (0x04 # xy)" "length xy = 64"
    and cmp: "secp_toRawBytes E P True = Inr cp" "length cp = 33"
    and pubU: "secp_getPublicKey E pk False = Inr (0x04 # xy)"
    and pubC: "secp_getPublicKey E pk True = Inr cp"
    and decU: "secp_Point_fromHex E (HexBytes (0x04 # xy)) = Inr P"
    and decC: "secp_Point_fromHex E (HexBytes cp) = Inr P"
  shows "thenDo (computePublicKey E k c) (decodePoint E) = Inr P
       \<and> thenDo (computePublicKey E (HexString (''0x'' @ hex_of_bytes (0x04 # xy))) c')
             (decodePoint E) = Inr P
       \<and> thenDo (computePublicKey E (HexString (''0x'' @ hex_of_bytes xy)) c')
             (decodePoint E) = Inr P
       \<and> thenDo (computePublicKey E (HexString (''0x'' @ hex_of_bytes cp)) c')
             (decodePoint E) = Inr P"
proof -
  define u where "u = 0x04 # xy"
  have lenu: "length u \<noteq> 32" "length u \<noteq> 64"
    using unc(2) by (simp_all add: u_def)
  have lenc: "length cp \<noteq> 32" "length cp \<noteq> 64"
    using cmp(2) by simp_all
  obtain raw where raw: "secp_getPublicKey E pk (truthy c) = Inr raw"
    "secp_Point_fromHex E (HexBytes raw) = Inr P"
    using pubU pubC decU decC by (cases "truthy c") simp_all
  obtain raw' where raw': "secp_toRawBytes E P (truthy c') = Inr raw'"
    "secp_Point_fromHex E (HexBytes raw') = Inr P"
    using unc(1) cmp(1) decU decC by (cases "truthy c'") simp_all
  have dU: "getBytes (HexString (''0x'' @ hex_of_bytes u)) ''key'' = Inr u"
    by simp
  have dR: "getBytes (HexString (''0x'' @ hex_of_bytes xy)) ''key'' = Inr xy"
    by simp
  have dC: "getBytes (HexString (''0x'' @ hex_of_bytes cp)) ''key'' = Inr cp"
    by simp
  have "thenDo (computePublicKey E k c) (decodePoint E) = Inr P"
    by (rule decode_after_private [OF key raw])
  moreover have "thenDo (computePublicKey E (HexString (''0x'' @ hex_of_bytes u)) c')
                   (decodePoint E) = Inr P"
    using decU by (intro decode_after_point [OF dU lenu _ raw']) (simp add: u_def)
  moreover have "thenDo (computePublicKey E (HexString (''0x'' @ hex_of_bytes xy)) c')
                   (decodePoint E) = Inr P"
    by (rule decode_after_raw [OF dR unc(2) decU raw'])
  moreover have "thenDo (computePublicKey E (HexString (''0x'' @ hex_of_bytes cp)) c')
                   (decodePoint E) = Inr P"
    by (rule decode_after_point [OF dC lenc decC raw'])
  ultimately show ?thesis
    unfolding u_def by blast
qed

lemma fx_toRawBytes: "secp_toRawBytes (fx_engine np) P c = Inr (fx_encode P c)"
  by (simp add: fx_engine_def)

lemma fx_decode_encode: "fx_decode (fx_encode P c) = Inr P"
  by (cases P; cases c) (simp_all add: fx_decode_def fx_encode_def unhex_def nibble_def)

lemma fx_fromHex_bytes: "secp_Point_fromHex (fx_engine np) (HexBytes (fx_encode P c)) = Inr P"
  by (simp add: fx_engine_def fx_ensureBytes_def fx_decode_encode)

lemma fx_fromHex_string:
  "secp_Point_fromHex (fx_engine np) (HexStr (hex_of_bytes (fx_encode P c))) = Inr P"
  by (simp add: fx_engine_def fx_ensureBytes_def fx_decode_encode)

lemma fx_encode_uncompressed: "fx_encode P False = 0x04 # fx_x P @ fx_y P"
  by (simp add: fx_encode_def)

lemma fx_xy_length: "length (fx_x P @ fx_y P) = 64"
  by (simp add: fx_x_length fx_y_length)

lemma fx_key0_key: "getBytes (HexString ''0x1234567812345678123456781234567812345678123456781234567812345678'') ''key'' = Inr fx_key0"
  by (rule fx_key0_decoded)

theorem computePublicKey_normalizes_witness:
  "thenDo (computePublicKey (fx_engine (Inr None))
       (HexString ''0x1234567812345678123456781234567812345678123456781234567812345678'') None)
     (decodePoint (fx_engine (Inr None))) = Inr PK0
   \<and> thenDo (computePublicKey (fx_engine (Inr None))
       (HexString (''0x'' @ hex_of_bytes (0x04 # fx_x PK0 @ fx_y PK0))) (Some True))
     (decodePoint (fx_engine (Inr None))) = Inr PK0
   \<and> thenDo (computePublicKey (fx_engine (Inr None))
       (HexString (''0x'' @ hex_of_bytes (fx_x PK0 @ fx_y PK0))) (Some True))
     (decodePoint (fx_engine (Inr None))) = Inr PK0
   \<and> thenDo (computePublicKey (fx_engine (Inr None))
       (HexString (''0x'' @ hex_of_bytes (fx_encode PK0 True))) (Some True))
     (decodePoint (fx_engine (Inr None))) = Inr PK0"
proof -
  let ?E = "fx_engine (Inr None) :: fx_point CurveEngine"
  have unc: "secp_toRawBytes ?E PK0 False = Inr (0x04 # fx_x PK0 @ fx_y PK0)"
    by (simp add: fx_toRawBytes fx_encode_uncompressed)
  have cmp: "secp_toRawBytes ?E PK0 True = Inr (fx_encode PK0 True)"
    by (rule fx_toRawBytes)
  have lenc: "length (fx_encode PK0 True) = 33"
    by (simp add: fx_encode_length)
  have pubU: "secp_getPublicKey ?E fx_key0 False = Inr (0x04 # fx_x PK0 @ fx_y PK0)"
    by (simp add: fx_getPublicKey0 fx_encode_uncompressed)
  have pubC: "secp_getPublicKey ?E fx_key0 True = Inr (fx_encode PK0 True)"
    by (rule fx_getPublicKey0)
  have decU: "secp_Point_fromHex ?E (HexBytes (0x04 # fx_x PK0 @ fx_y PK0)) = Inr PK0"
    using fx_fromHex_bytes [of "Inr None" PK0 False] by (simp add: fx_encode_uncompressed)
  have decC: "secp_Point_fromHex ?E (HexBytes (fx_encode PK0 True)) = Inr PK0"
    by (rule fx_fromHex_bytes)
  show ?thesis
    by (rule computePublicKey_normalizes [OF fx_key0_key fx_key0_length unc fx_xy_length cmp lenc
          pubU pubC decU decC])
qed

lemma fx_raw0_decoded:
  "getBytes (HexString (''0xeb31fbe78fc743f6f8ba04ce27791685c2152bdbacf020696c7086a95d353eb0''
                        @ ''d057c808f233f6f7ababe98e554fcb815dd39ee7043332a6733d63972145e955'')) ''key''
     = Inr (fx_x PK0 @ fx_y PK0)"
  by (simp add: getBytes_def unhex_def nibble_def)

lemma fx_pub0_hex:
  "hex_of_bytes (fx_encode PK0 True)
     = ''03eb31fbe78fc743f6f8ba04ce27791685c2152bdbacf020696c7086a95d353eb0''"
  by (simp add: fx_encode_def unhex_def nibble_def hexchar_def)

theorem computePublicKey_raw_witness:
  "computePublicKey (fx_engine (Inr None))
     (HexString (''0xeb31fbe78fc743f6f8ba04ce27791685c2152bdbacf020696c7086a95d353eb0''
                 @ ''d057c808f233f6f7ababe98e554fcb815dd39ee7043332a6733d63972145e955'')) (Some True)
     = Inr ''0x03eb31fbe78fc743f6f8ba04ce27791685c2152bdbacf020696c7086a95d353eb0''"
proof -
  have dec: "secp_Point_fromHex (fx_engine (Inr None)) (HexBytes (0x04 # fx_x PK0 @ fx_y PK0)) = Inr PK0"
    using fx_fromHex_bytes [of "Inr None" PK0 False] by (simp add: fx_encode_uncompressed)
  have "computePublicKey (fx_engine (Inr None))
          (HexString (''0xeb31fbe78fc743f6f8ba04ce27791685c2152bdbacf020696c7086a95d353eb0''
                      @ ''d057c808f233f6f7ababe98e554fcb815dd39ee7043332a6733d63972145e955''))
          (Some True)
        = Inr (''0x'' @ hex_of_bytes (fx_encode PK0 True))"
    using computePublicKey_raw [OF fx_raw0_decoded fx_xy_length, of "fx_engine (Inr None)" "Some True"]
    by (simp only: dec thenDo_Inr fx_toRawBytes truthy_def option.case)
  then show ?thesis
    by (simp only: fx_pub0_hex) simp
qed

section \<open>Point addition\<close>

lemma addPoints_value:
  assumes "computePublicKey E p0 None = Inr h0"
    and "secp_Point_fromHex E (HexStr (drop 2 h0)) = Inr P0"
    and "computePublicKey E p1 None = Inr h1"
    and "secp_Point_fromHex E (HexStr (drop 2 h1)) = Inr P1"
  shows "addPoints E p0 p1 c =
           thenDo (secp_add E P0 P1) (\<lambda>sum.
           thenDo (secp_toHex E sum (truthy c)) (\<lambda>h. Inr (''0x'' @ h)))"
  by (simp add: addPoints_def assms)

text \<open>
  Claim C10. Take two keys that \<open>computePublicKey\<close> accepts and whose uncompressed
  forms the engine decodes to the points \<open>P0\<close> and \<open>P1\<close>, and an engine whose
  addition gives the same result for \<open>P0\<close>, \<open>P1\<close> in either order. Then
  \<open>addPoints\<close> returns the same result for the two keys in either order, for every
  value of the flag.
\<close>

theorem addPoints_commute:
  assumes "computePublicKey E p0 None = Inr h0"
    and "secp_Point_fromHex E (HexStr (drop 2 h0)) = Inr P0"
    and "computePublicKey E p1 None = Inr h1"
    and "secp_Point_fromHex E (HexStr (drop 2 h1)) = Inr P1"
    and "secp_add E P0 P1 = secp_add E P1 P0"
  shows "addPoints E p0 p1 compressed = addPoints E p1 p0 compressed"
  by (simp only: addPoints_value [OF assms(1-4)] addPoints_value [OF assms(3,4,1,2)] assms(5))

lemma fx_key1_decoded:
  "getBytes (HexString ''0x0000000000000000000000000000000000000000000000000000000000000001'') name
     = Inr fx_key1"
  by (simp add: getBytes_def fx_key1_def unhex_def nibble_def)

lemma fx_key1_length: "length fx_key1 = 32"
  by (simp add: fx_key1_def unhex_def nibble_def)

lemma fx_key1_neq: "fx_key1 \<noteq> fx_key0"
  by (simp add: fx_key1_def fx_key0_def unhex_def nibble_def)

lemma fx_getPublicKey1: "secp_getPublicKey (fx_engine np) fx_key1 c = Inr (fx_encode PG1 c)"
  by (simp add: fx_engine_def fx_getPublicKey_def fx_key1_neq)

lemma fx_computePublicKey1:
  "computePublicKey (fx_engine np)
     (HexString ''0x0000000000000000000000000000000000000000000000000000000000000001'') None
     = Inr (''0x'' @ hex_of_bytes (fx_encode PG1 False))"
  by (simp only: computePublicKey_private [OF fx_key1_decoded fx_key1_length] fx_getPublicKey1
      thenDo_Inr truthy_def option.case)

lemma fx_pub2_decoded:
  "getBytes (HexString ''0x02c6047f9441ed7d6d3045406e95c07cd85c778e4b8cef3ca7abac09b95c709ee5'') name
     = Inr (fx_encode PG2 True)"
  by (simp add: getBytes_def fx_encode_def unhex_def nibble_def)

lemma fx_computePublicKey2:
  "computePublicKey (fx_engine np)
     (HexString ''0x02c6047f9441ed7d6d3045406e95c07cd85c778e4b8cef3ca7abac09b95c709ee5'') None
     = Inr (''0x'' @ hex_of_bytes (fx_encode PG2 False))"
proof -
  have len: "length (fx_encode PG2 True) \<noteq> 32" "length (fx_encode PG2 True) \<noteq> 64"
    by (simp_all add: fx_encode_length)
  show ?thesis
    by (simp only: computePublicKey_point [OF fx_pub2_decoded len] fx_fromHex_bytes fx_toRawBytes
        thenDo_Inr truthy_def option.case)
qed

lemma drop_prefix: "drop 2 (''0x'' @ h) = h"
  by simp

lemma fx_add12: "secp_add (fx_engine np) PG1 PG2 = Inr PG3" "secp_add (fx_engine np) PG2 PG1 = Inr PG3"
  by (simp_all add: fx_engine_def fx_add_def)

lemma fx_toHex: "secp_toHex (fx_engine np) P c = Inr (hex_of_bytes (fx_encode P c))"
  by (simp add: fx_engine_def)

theorem addPoints_commute_witness:
  "addPoints (fx_engine (Inr None))
     (HexString ''0x0000000000000000000000000000000000000000000000000000000000000001'')
     (HexString ''0x02c6047f9441ed7d6d3045406e95c07cd85c778e4b8cef3ca7abac09b95c709ee5'') None
   = addPoints (fx_engine (Inr None))
     (HexString ''0x02c6047f9441ed7d6d3045406e95c07cd85c778e4b8cef3ca7abac09b95c709ee5'')
     (HexString ''0x0000000000000000000000000000000000000000000000000000000000000001'') None
   \<and> addPoints (fx_engine (Inr None))
     (HexString ''0x0000000000000000000000000000000000000000000000000000000000000001'')
     (HexString ''0x02c6047f9441ed7d6d3045406e95c07cd85c778e4b8cef3ca7abac09b95c709ee5'') None
   = Inr (''0x'' @ hex_of_bytes (fx_encode PG3 False))"
proof -
  let ?E = "fx_engine (Inr None) :: fx_point CurveEngine"
  have d1: "secp_Point_fromHex ?E (HexStr (drop 2 (''0x'' @ hex_of_bytes (fx_encode PG1 False)))) = Inr PG1"
    by (simp only: drop_prefix fx_fromHex_string)
  have d2: "secp_Point_fromHex ?E (HexStr (drop 2 (''0x'' @ hex_of_bytes (fx_encode PG2 False)))) = Inr PG2"
    by (simp only: drop_prefix fx_fromHex_string)
  have comm: "secp_add ?E PG1 PG2 = secp_add ?E PG2 PG1"
    by (simp only: fx_add12)
  have val: "addPoints ?E
     (HexString ''0x0000000000000000000000000000000000000000000000000000000000000001'')
     (HexString ''0x02c6047f9441ed7d6d3045406e95c07cd85c778e4b8cef3ca7abac09b95c709ee5'') None
     = Inr (''0x'' @ hex_of_bytes (fx_encode PG3 False))"
    by (simp only: addPoints_value [OF fx_computePublicKey1 d1 fx_computePublicKey2 d2] fx_add12
        fx_toHex thenDo_Inr truthy_def option.case)
  show ?thesis
    using addPoints_commute [OF fx_computePublicKey1 d1 fx_computePublicKey2 d2 comm, of None] val
    by (simp only: simp_thms)
qed

section \<open>Shared secret\<close>

text \<open>
  What \<open>computeShardSecret\<close> does when it returns: it normalizes the other key with
  \<open>computePublicKey\<close>, hands the engine its own private key bytes and the
  normalized key as the string \<open>computePublicKey\<close> returned, prefix included, and
  returns the hexadecimal form of the engine's bytes with no further step.
\<close>

lemma computeShardSecret_success:
  assumes "computeShardSecret E sk other = Inr s"
  shows "\<exists>pub pk secret. computePublicKey E other None = Inr pub \<and> take 2 pub = ''0x''
           \<and> getBytes (HexString (privateKey sk)) ''value'' = Inr pk
           \<and> secp_getSharedSecret E pk (HexStr pub) = Inr secret
           \<and> s = ''0x'' @ hex_of_bytes secret"
proof -
  obtain pub where pub: "computePublicKey E other None = Inr pub"
    using assms by (cases "computePublicKey E other None") (simp_all add: computeShardSecret_def)
  obtain pk where pk: "getBytes (HexString (privateKey sk)) ''value'' = Inr pk"
    using assms pub
    by (cases "getBytes (HexString (privateKey sk)) ''value''")
      (simp_all add: computeShardSecret_def getBytesCopy_def)
  obtain secret where secret: "secp_getSharedSecret E pk (HexStr pub) = Inr secret"
    using assms pub pk
    by (cases "secp_getSharedSecret E pk (HexStr pub)")
      (simp_all add: computeShardSecret_def getBytesCopy_def)
  have s: "s = ''0x'' @ hex_of_bytes secret"
    using assms pub pk secret by (simp add: computeShardSecret_def getBytesCopy_def)
  have "take 2 pub = ''0x''"
    using pub
    by (auto simp: computePublicKey_def thenDo_def hexlify_def split: sum.splits if_splits)
  then show ?thesis
    using pub pk secret s by blast
qed

lemma bytes_of_hex_prefixed: "bytes_of_hex (CHR ''0'' # CHR ''x'' # rest) = None"
  by (simp add: nibble_def)

lemma fx_getSharedSecret_prefixed:
  "secp_getSharedSecret (fx_engine np) pk (HexStr (''0x'' @ rest))
     = Inl (EngineError ''Invalid byte sequence'')"
  by (simp add: fx_engine_def fx_getSharedSecret_def fx_ensureBytes_def nibble_def)

lemma fx_getSharedSecret_ok:
  "secp_getSharedSecret (fx_engine np) fx_key0 (HexBytes (fx_encode PG2 False))
     = Inr (unhex ''f5a830fba8a7764f1edcbb62ef25b1d992581ee2cab868f83e65649d52d54b62'')"
  "secp_getSharedSecret (fx_engine np) fx_key0 (HexStr (hex_of_bytes (fx_encode PG2 False)))
     = Inr (unhex ''f5a830fba8a7764f1edcbb62ef25b1d992581ee2cab868f83e65649d52d54b62'')"
  by (simp_all add: fx_engine_def fx_getSharedSecret_def fx_ensureBytes_def fx_decode_encode)

text \<open>
  Claim C4 at the key of the example and the compressed form of \<open>2G\<close>. The other
  key is normalized to its uncompressed form, a string that starts with \<^verbatim>\<open>0x\<close>.
  \<open>computeShardSecret\<close> hands that string to the engine as it is, the engine cannot
  read it as hexadecimal digits and raises, and no shared secret is returned. The same
  engine returns the secret for the same string once the first two characters are
  dropped, which is what \<open>addPoints\<close> does before it calls the engine.
\<close>

theorem computeShardSecret_prefixed_key_fails:
  "computePublicKey (fx_engine (Inr None))
     (HexString ''0x02c6047f9441ed7d6d3045406e95c07cd85c778e4b8cef3ca7abac09b95c709ee5'') None
     = Inr (''0x'' @ hex_of_bytes (fx_encode PG2 False))
   \<and> computeShardSecret (fx_engine (Inr None)) fx_sk0
       (HexString ''0x02c6047f9441ed7d6d3045406e95c07cd85c778e4b8cef3ca7abac09b95c709ee5'')
     = Inl (EngineError ''Invalid byte sequence'')
   \<and> secp_getSharedSecret (fx_engine (Inr None)) fx_key0
       (HexStr (drop 2 (''0x'' @ hex_of_bytes (fx_encode PG2 False))))
     = Inr (unhex ''f5a830fba8a7764f1edcbb62ef25b1d992581ee2cab868f83e65649d52d54b62'')"
proof -
  have "computeShardSecret (fx_engine (Inr None)) fx_sk0
       (HexString ''0x02c6047f9441ed7d6d3045406e95c07cd85c778e4b8cef3ca7abac09b95c709ee5'')
     = Inl (EngineError ''Invalid byte sequence'')"
    by (simp only: computeShardSecret_def fx_computePublicKey2 thenDo_Inr getBytesCopy_def
        fx_sk0_decoded fx_getSharedSecret_prefixed thenDo_Inl)
  then show ?thesis
    by (simp only: fx_computePublicKey2 drop_prefix fx_getSharedSecret_ok simp_thms)
qed

end
